theory Spec2Isabelle
  imports Complex_Main "HOL-Library.Multiset"
begin

section \<open>JavaScript numbers\<close>

text \<open>
  A JavaScript number is NaN, one of the two infinities, or a finite value. Finite values
  are idealised as exact rationals: the binary rounding of IEEE doubles, overflow to
  Infinity and the sign of zero are not part of this model, and the literal \<open>1.1\<close> is
  eleven tenths. Everything the price book decides with a comparison, with \<open>Math.min\<close>
  or with \<open>||\<close> depends on NaN and on the order only, and both are kept.
\<close>

datatype jsnum = NaN | NegInf | Fin rat | PosInf

text \<open>\<open>a <= b\<close>: false as soon as one side is NaN.\<close>

fun js_le :: "jsnum \<Rightarrow> jsnum \<Rightarrow> bool" where
  "js_le NaN _ = False"
| "js_le _ NaN = False"
| "js_le NegInf _ = True"
| "js_le _ PosInf = True"
| "js_le (Fin a) (Fin b) = (a \<le> b)"
| "js_le (Fin a) NegInf = False"
| "js_le PosInf _ = False"

text \<open>\<open>a < b\<close>; the source's \<open>a > b\<close> is \<open>js_lt b a\<close>.\<close>

fun js_lt :: "jsnum \<Rightarrow> jsnum \<Rightarrow> bool" where
  "js_lt NaN _ = False"
| "js_lt _ NaN = False"
| "js_lt NegInf NegInf = False"
| "js_lt NegInf _ = True"
| "js_lt PosInf _ = False"
| "js_lt (Fin a) (Fin b) = (a < b)"
| "js_lt (Fin a) PosInf = True"
| "js_lt (Fin a) NegInf = False"

definition js_gt :: "jsnum \<Rightarrow> jsnum \<Rightarrow> bool" where
  "js_gt a b = js_lt b a"

text \<open>\<open>a === b\<close> on numbers: NaN is not equal to itself.\<close>

definition js_seq :: "jsnum \<Rightarrow> jsnum \<Rightarrow> bool" where
  "js_seq a b = (a \<noteq> NaN \<and> a = b)"

text \<open>Truthiness of a number: \<open>0\<close> and NaN are falsy.\<close>

definition truthy :: "jsnum \<Rightarrow> bool" where
  "truthy a = (a \<noteq> NaN \<and> a \<noteq> Fin 0)"

text \<open>\<open>Math.min\<close> of two values, and of an argument list (\<open>Math.min()\<close> is Infinity).\<close>

definition min2 :: "jsnum \<Rightarrow> jsnum \<Rightarrow> jsnum" where
  "min2 a b = (if a = NaN \<or> b = NaN then NaN else if js_le a b then a else b)"

fun Math_min :: "jsnum list \<Rightarrow> jsnum" where
  "Math_min [] = PosInf"
| "Math_min (x # xs) = min2 x (Math_min xs)"

text \<open>\<open>a / b\<close>. A zero divisor gives an infinity of the dividend's sign, \<open>0 / 0\<close> is NaN.\<close>

fun js_div :: "jsnum \<Rightarrow> jsnum \<Rightarrow> jsnum" where
  "js_div NaN _ = NaN"
| "js_div _ NaN = NaN"
| "js_div (Fin a) (Fin b) =
     (if b = 0 then (if a = 0 then NaN else if 0 < a then PosInf else NegInf)
      else Fin (a / b))"
| "js_div (Fin a) _ = Fin 0"
| "js_div PosInf (Fin b) = (if 0 \<le> b then PosInf else NegInf)"
| "js_div NegInf (Fin b) = (if 0 \<le> b then NegInf else PosInf)"
| "js_div _ _ = NaN"


section \<open>JavaScript text\<close>

text \<open>
  Text is a list of 8-bit characters. \<open>trim\<close> and \<open>parseFloat\<close> skip white space: tab,
  line feed, vertical tab, form feed, carriage return, space and no-break space.
\<close>

definition isWhiteSpace :: "char \<Rightarrow> bool" where
  "isWhiteSpace c =
     (c \<in> set [CHR 0x09, CHR 0x0A, CHR 0x0B, CHR 0x0C, CHR 0x0D, CHR 0x20, CHR 0xA0])"

definition trim :: "string \<Rightarrow> string" where
  "trim s = rev (dropWhile isWhiteSpace (rev (dropWhile isWhiteSpace s)))"

definition isDigit :: "char \<Rightarrow> bool" where
  "isDigit c = (c \<in> set ''0123456789'')"

definition digitVal :: "char \<Rightarrow> nat" where
  "digitVal c = of_char c - 48"

definition digitChar :: "nat \<Rightarrow> char" where
  "digitChar n = ''0123456789'' ! n"

text \<open>The number a run of decimal digits denotes.\<close>

definition digitsVal :: "string \<Rightarrow> nat" where
  "digitsVal ds = foldl (\<lambda>a c. 10 * a + digitVal c) 0 ds"

text \<open>The decimal digits of a natural number, \<open>0\<close> for zero.\<close>

fun digitsOf :: "nat \<Rightarrow> string" where
  "digitsOf n = (if n < 10 then [digitChar n] else digitsOf (n div 10) @ [digitChar (n mod 10)])"

declare digitsOf.simps [simp del]

text \<open>An optional sign in front of a literal: whether it is a minus, and the rest.\<close>

fun takeSign :: "string \<Rightarrow> bool \<times> string" where
  "takeSign [] = (False, [])"
| "takeSign (c # cs) =
     (if c = CHR ''-'' then (True, cs) else if c = CHR ''+'' then (False, cs) else (False, c # cs))"

text \<open>
  The exponent part \<open>e\<close>, \<open>E\<close> with an optional sign and at least one digit; a literal
  whose exponent part is incomplete ends in front of it, which is exponent zero.
\<close>

definition exponentOf :: "string \<Rightarrow> int" where
  "exponentOf r =
     (case r of
        [] \<Rightarrow> 0
      | c # cs \<Rightarrow>
          if c = CHR ''e'' \<or> c = CHR ''E'' then
            (let (eneg, r') = takeSign cs; ed = takeWhile isDigit r' in
             if ed = [] then 0
             else if eneg then - int (digitsVal ed) else int (digitsVal ed))
          else 0)"

definition scale10 :: "rat \<Rightarrow> int \<Rightarrow> rat" where
  "scale10 m e = (if 0 \<le> e then m * 10 ^ nat e else m / 10 ^ nat (- e))"

text \<open>
  \<open>parseFloat\<close>: white space is skipped, then the longest prefix that is a decimal
  literal is read (sign, \<open>Infinity\<close>, or digits with an optional fraction and exponent);
  text with no such prefix, the empty text among them, is NaN. The value is exact.
\<close>

definition parseFloat :: "string \<Rightarrow> jsnum" where
  "parseFloat s =
     (let (neg, u) = takeSign (dropWhile isWhiteSpace s) in
      if take 8 u = ''Infinity'' then (if neg then NegInf else PosInf)
      else
        let ip = takeWhile isDigit u;
            r1 = dropWhile isDigit u;
            (fp, r2) = (case r1 of
                          [] \<Rightarrow> ([], r1)
                        | c # cs \<Rightarrow> if c = CHR ''.''
                                     then (takeWhile isDigit cs, dropWhile isDigit cs)
                                     else ([], r1))
        in if ip = [] \<and> fp = [] then NaN
           else
             let mant = rat_of_nat (digitsVal (ip @ fp)) / 10 ^ length fp;
                 v = scale10 mant (exponentOf r2)
             in Fin (if neg then - v else v))"

text \<open>
  \<open>x.toFixed(f)\<close>: for a finite \<open>x\<close> the integer \<open>n\<close> with \<open>n / 10^f\<close> nearest to
  \<open>|x|\<close>, the larger one on a tie, written with \<open>f\<close> digits after the point and a
  minus sign when \<open>x < 0\<close>. JavaScript switches to exponent notation from \<open>10^21\<close>
  on; the model writes positional digits there too, which \<open>parseFloat\<close> reads as the
  same number.
\<close>

definition toFixed :: "nat \<Rightarrow> jsnum \<Rightarrow> string" where
  "toFixed f x =
     (case x of
        NaN \<Rightarrow> ''NaN''
      | PosInf \<Rightarrow> ''Infinity''
      | NegInf \<Rightarrow> ''-Infinity''
      | Fin r \<Rightarrow>
          (let s = (if r < 0 then ''-'' else '''');
               n = nat \<lfloor>\<bar>r\<bar> * 10 ^ f + 1 / 2\<rfloor>;
               m = digitsOf n;
               m1 = (if length m \<le> f then replicate (f + 1 - length m) CHR ''0'' @ m else m);
               k = length m1
           in if f \<noteq> 0 then s @ take (k - f) m1 @ ''.'' @ drop (k - f) m1 else s @ m))"

section \<open>Data model\<close>

datatype timestamp = Iso string | ServerTimestamp

record item =
  id' :: string
  name :: string
  price :: jsnum
  quantity :: jsnum
  unit :: string
  store :: string
  rockBottomPrice :: jsnum
  unitPrice :: jsnum
  timestamp :: timestamp

text \<open>The form holds the text of its six inputs.\<close>

record form =
  name :: string
  price :: string
  quantity :: string
  unit :: string
  rockBottomPrice :: string
  store :: string

definition emptyForm :: form where
  "emptyForm = \<lparr>form.name = '''', price = '''', quantity = '''', unit = ''oz'',
                 rockBottomPrice = '''', store = ''''\<rparr>"

text \<open>
  The component state the handlers read and write. \<open>uniqueItems\<close> (the sorted distinct
  names behind the selector), \<open>loading\<close> and \<open>userId\<close> decide nothing below and are left
  out, as is \<open>handleFormChange\<close>, which copies typed text into the form and a typed name
  into \<open>selectedItem\<close>.
\<close>

record app_state =
  items :: "item list"
  isAuthenticated :: bool
  isFirebaseConfigured :: bool
  selectedItem :: string
  form :: form

section \<open>Price engine\<close>

text \<open>
  \<open>historicalLowPrice\<close> is the memoised value of the render: a function of the
  selected item and the items.
\<close>

definition historicalLowPrice :: "item list \<Rightarrow> string \<Rightarrow> jsnum" where
  "historicalLowPrice its sel =
     (if sel = [] then Fin 0
      else
        let relevantItems = filter (\<lambda>it. item.name it = sel) its in
        if length relevantItems = 0 then Fin 0
        else
          let lowestPrice = foldl (\<lambda>m it. Math_min [m, item.unitPrice it]) PosInf relevantItems
          in if js_seq lowestPrice PosInf then Fin 0 else lowestPrice)"

definition calculateUnitPrice :: "jsnum \<Rightarrow> jsnum \<Rightarrow> jsnum" where
  "calculateUnitPrice p q =
     (if js_le p (Fin 0) \<or> js_le q (Fin 0) then Fin 0
      else parseFloat (toFixed 5 (js_div p q)))"

definition currentUnitPrice :: "form \<Rightarrow> jsnum" where
  "currentUnitPrice f =
     (let p = parseFloat (form.price f); q = parseFloat (form.quantity f)
      in calculateUnitPrice p q)"




section \<open>Handlers\<close>


text \<open>
  The target price to persist, lines 223 to 228 of \<open>handleSubmit\<close>: \<open>rockBottomNum\<close>
  after the update, from its parsed value, the historical low and the unit price.
\<close>

definition deriveRockBottom :: "jsnum \<Rightarrow> jsnum \<Rightarrow> jsnum \<Rightarrow> jsnum" where
  "deriveRockBottom rockBottomNum hl unitPriceCalculated =
     (if js_gt hl (Fin 0) then Math_min [rockBottomNum, hl, unitPriceCalculated]
      else if js_seq rockBottomNum (Fin 0) then unitPriceCalculated
      else rockBottomNum)"

text \<open>
  What a submission does: it returns early, or it hands a new item to the store, which is
  \<open>addDoc\<close> with the server's timestamp when Firebase is configured and the local list
  written to \<open>localStorage\<close> otherwise.
\<close>

datatype outcome =
    NotAuthenticated
  | ValidationError
  | AddDoc item
  | LocalWrite "item list"

text \<open>
  \<open>handleSubmit\<close>. \<open>nowId\<close> and \<open>nowIso\<close> are \<open>Date.now().toString()\<close> and
  \<open>new Date().toISOString()\<close>; \<open>addDocOk\<close> says whether \<open>addDoc\<close> resolves, and when it
  rejects the form is left as it is. In Firebase mode the list of items changes with the
  next snapshot, not in the handler; in local mode the write to \<open>localStorage\<close> is taken
  to succeed.
\<close>

definition handleSubmit :: "string \<Rightarrow> string \<Rightarrow> bool \<Rightarrow> app_state \<Rightarrow> outcome \<times> app_state" where
  "handleSubmit nowId nowIso addDocOk st =
     (if \<not> isAuthenticated st then (NotAuthenticated, st)
      else
        let f = form st;
            priceNum = parseFloat (form.price f);
            quantityNum = parseFloat (form.quantity f);
            rockBottomNum = (let v = parseFloat (form.rockBottomPrice f)
                             in if truthy v then v else Fin 0)
        in if form.name f = [] \<or> js_le priceNum (Fin 0) \<or> js_le quantityNum (Fin 0)
           then (ValidationError, st)
           else
             let unitPriceCalculated = calculateUnitPrice priceNum quantityNum;
                 rockBottomNum' =
                   deriveRockBottom rockBottomNum
                     (historicalLowPrice (items st) (selectedItem st)) unitPriceCalculated;
                 newItem = \<lparr>id' = nowId,
                            item.name = trim (form.name f),
                            item.price = priceNum,
                            item.quantity = quantityNum,
                            item.unit = form.unit f,
                            item.store = (if trim (form.store f) \<noteq> [] then trim (form.store f)
                                          else ''Unknown''),
                            item.rockBottomPrice = rockBottomNum',
                            unitPrice = unitPriceCalculated,
                            timestamp = Iso nowIso\<rparr>
             in if isFirebaseConfigured st then
                  (AddDoc (newItem\<lparr>timestamp := ServerTimestamp\<rparr>),
                   if addDocOk then st\<lparr>form := emptyForm, selectedItem := ''''\<rparr> else st)
                else
                  (let updatedItems = newItem # items st
                   in (LocalWrite updatedItems,
                       st\<lparr>items := updatedItems, form := emptyForm, selectedItem := ''''\<rparr>)))"

text \<open>The record a submission hands to the store, if it hands one.\<close>

fun persisted :: "outcome \<Rightarrow> item option" where
  "persisted NotAuthenticated = None"
| "persisted ValidationError = None"
| "persisted (AddDoc it) = Some it"
| "persisted (LocalWrite its) = (case its of [] \<Rightarrow> None | it # _ \<Rightarrow> Some it)"

section \<open>The specification's words\<close>

text \<open>
  These two definitions follow the specification, not the source. \<open>spec_round d x\<close> is
  \<open>x\<close> rounded to \<open>d\<close> fractional digits, a tie going away from zero; \<open>js_round\<close> extends
  it to the values that are not finite, which rounding leaves as they are.
\<close>

definition spec_round :: "nat \<Rightarrow> rat \<Rightarrow> rat" where
  "spec_round d x = sgn x * of_int \<lfloor>\<bar>x\<bar> * 10 ^ d + 1 / 2\<rfloor> / 10 ^ d"

definition js_round :: "nat \<Rightarrow> jsnum \<Rightarrow> jsnum" where
  "js_round d x = (case x of Fin r \<Rightarrow> Fin (spec_round d r) | _ \<Rightarrow> x)"


section \<open>Example records\<close>

text \<open>Two purchases of the same item, the second one cheaper (scenarios A and B).\<close>

definition beans1 :: item where
  "beans1 = \<lparr>id' = ''1'', item.name = ''beans'', item.price = Fin (499 / 100),
             item.quantity = Fin 16, item.unit = ''oz'', item.store = ''Unknown'',
             item.rockBottomPrice = Fin (31188 / 100000), unitPrice = Fin (31188 / 100000),
             timestamp = Iso ''2024-01-01T00:00:00.000Z''\<rparr>"

definition beans2 :: item where
  "beans2 = \<lparr>id' = ''2'', item.name = ''beans'', item.price = Fin (399 / 100),
             item.quantity = Fin 16, item.unit = ''oz'', item.store = ''Unknown'',
             item.rockBottomPrice = Fin (24938 / 100000), unitPrice = Fin (24938 / 100000),
             timestamp = Iso ''2024-01-02T00:00:00.000Z''\<rparr>"

text \<open>
  Rice bought above its target, milk bought at its target, salt so cheap that its unit
  price rounds to zero, and tea logged with the price left blank.
\<close>

definition rice1 :: item where
  "rice1 = \<lparr>id' = ''3'', item.name = ''rice'', item.price = Fin (24 / 5),
            item.quantity = Fin 16, item.unit = ''oz'', item.store = ''Unknown'',
            item.rockBottomPrice = Fin (1 / 4), unitPrice = Fin (3 / 10),
            timestamp = Iso ''2024-01-03T00:00:00.000Z''\<rparr>"

definition milk1 :: item where
  "milk1 = \<lparr>id' = ''4'', item.name = ''milk'', item.price = Fin (16 / 5),
            item.quantity = Fin 16, item.unit = ''oz'', item.store = ''Unknown'',
            item.rockBottomPrice = Fin (1 / 5), unitPrice = Fin (1 / 5),
            timestamp = Iso ''2024-01-04T00:00:00.000Z''\<rparr>"

definition salt1 :: item where
  "salt1 = \<lparr>id' = ''5'', item.name = ''salt'', item.price = Fin 1,
            item.quantity = Fin 1000000, item.unit = ''g'', item.store = ''Unknown'',
            item.rockBottomPrice = Fin (1 / 2), unitPrice = Fin 0,
            timestamp = Iso ''2024-01-05T00:00:00.000Z''\<rparr>"

definition tea1 :: item where
  "tea1 = \<lparr>id' = ''6'', item.name = ''tea'', item.price = NaN,
           item.quantity = Fin 16, item.unit = ''oz'', item.store = ''Unknown'',
           item.rockBottomPrice = NaN, unitPrice = NaN,
           timestamp = Iso ''2024-01-06T00:00:00.000Z''\<rparr>"


text \<open>
  Four submissions in a signed-in local session that holds the first purchase of beans:
  a second purchase of beans (scenario B) with the target the selector suggests, a
  purchase with the quantity \<open>0\<close>, a purchase of tea with the price left blank, and a
  purchase whose name is a single space.
\<close>

definition beansOrder :: app_state where
  "beansOrder = \<lparr>items = [beans1], isAuthenticated = True, isFirebaseConfigured = False,
                 selectedItem = ''beans'',
                 form = \<lparr>form.name = ''beans'', price = ''3.99'', quantity = ''16'',
                         unit = ''oz'', rockBottomPrice = ''0.3119'',
                         store = '' Corner Market ''\<rparr>\<rparr>"

definition zeroQuantityOrder :: app_state where
  "zeroQuantityOrder = beansOrder\<lparr>form := (form beansOrder)\<lparr>form.quantity := ''0''\<rparr>\<rparr>"


definition spaceOrder :: app_state where
  "spaceOrder = \<lparr>items = [beans1], isAuthenticated = True, isFirebaseConfigured = False,
                 selectedItem = '' '',
                 form = \<lparr>form.name = '' '', price = ''1'', quantity = ''1'',
                         unit = ''oz'', rockBottomPrice = '''', store = ''''\<rparr>\<rparr>"


section \<open>Digits, and reading back what toFixed writes\<close>

lemma digit_cases: "d < 10 \<Longrightarrow> d \<in> {0, 1, 2, 3, 4, 5, 6, 7, 8, 9::nat}"
  by auto

lemma digitChar_isDigit: "d < 10 \<Longrightarrow> isDigit (digitChar d)"
  using digit_cases [of d] by (auto simp: isDigit_def digitChar_def)

lemma digitVal_digitChar: "d < 10 \<Longrightarrow> digitVal (digitChar d) = d"
  using digit_cases [of d] by (auto simp: digitVal_def digitChar_def)

lemma isDigit_not_space: "isDigit c \<Longrightarrow> \<not> isWhiteSpace c"
  by (auto simp: isDigit_def isWhiteSpace_def)

lemma isDigit_cases: "isDigit c \<Longrightarrow> c \<noteq> CHR ''-'' \<and> c \<noteq> CHR ''+'' \<and> c \<noteq> CHR ''.'' \<and> c \<noteq> CHR ''I''"
  by (auto simp: isDigit_def)

lemma digitsOf_small: "n < 10 \<Longrightarrow> digitsOf n = [digitChar n]"
  by (simp add: digitsOf.simps)

lemma digitsOf_big: "\<not> n < 10 \<Longrightarrow> digitsOf n = digitsOf (n div 10) @ [digitChar (n mod 10)]"
  by (subst digitsOf.simps) simp

lemma digitsOf_digits: "\<forall>c \<in> set (digitsOf n). isDigit c"
proof (induction n rule: digitsOf.induct)
  case (1 n)
  show ?case
  proof (cases "n < 10")
    case True
    then show ?thesis by (simp add: digitsOf_small digitChar_isDigit)
  next
    case False
    with 1 show ?thesis by (simp add: digitsOf_big digitChar_isDigit)
  qed
qed

lemma digitsOf_nonempty: "digitsOf n \<noteq> []"
  by (subst digitsOf.simps) simp

lemma foldl_digits_acc:
  fixes f :: "nat \<Rightarrow> char \<Rightarrow> nat"
  assumes f: "\<And>a c. f a c = 10 * a + digitVal c"
  shows "foldl f a xs = a * 10 ^ length xs + foldl f 0 xs"
proof (induction xs arbitrary: a)
  case Nil
  show ?case by simp
next
  case (Cons x xs)
  have e1: "f a x = 10 * a + digitVal x" and e0: "f 0 x = digitVal x"
    by (simp_all add: f)
  have "foldl f (f a x) xs = f a x * 10 ^ length xs + foldl f 0 xs"
    by (rule Cons.IH)
  moreover have "foldl f (f 0 x) xs = f 0 x * 10 ^ length xs + foldl f 0 xs"
    by (rule Cons.IH)
  ultimately show ?case by (simp add: e1 e0 algebra_simps)
qed

lemma digitsVal_append: "digitsVal (xs @ ys) = digitsVal xs * 10 ^ length ys + digitsVal ys"
proof -
  define f :: "nat \<Rightarrow> char \<Rightarrow> nat" where "f = (\<lambda>a c. 10 * a + digitVal c)"
  have "foldl f (foldl f 0 xs) ys = foldl f 0 xs * 10 ^ length ys + foldl f 0 ys"
    by (rule foldl_digits_acc) (simp add: f_def)
  then show ?thesis by (simp add: digitsVal_def f_def)
qed

lemma digitsVal_single: "digitsVal [c] = digitVal c"
  by (simp add: digitsVal_def)

lemma digitsVal_digitsOf: "digitsVal (digitsOf n) = n"
proof (induction n rule: digitsOf.induct)
  case (1 n)
  show ?case
  proof (cases "n < 10")
    case True
    then show ?thesis by (simp add: digitsOf_small digitsVal_single digitVal_digitChar)
  next
    case False
    with 1 show ?thesis
      by (simp add: digitsOf_big digitsVal_append digitsVal_single digitVal_digitChar)
  qed
qed

lemma digitsVal_zeros: "digitsVal (replicate k CHR ''0'' @ m) = digitsVal m"
proof (induction k)
  case 0
  show ?case by simp
next
  case (Suc k)
  have "digitsVal (CHR ''0'' # (replicate k CHR ''0'' @ m)) = digitsVal (replicate k CHR ''0'' @ m)"
    by (simp add: digitsVal_def digitVal_def)
  with Suc show ?case by simp
qed

lemma not_isDigit_point: "\<not> isDigit CHR ''.''"
  by (simp add: isDigit_def)

lemma takeWhile_digits_point:
  "\<forall>c\<in>set a. isDigit c \<Longrightarrow> takeWhile isDigit (a @ CHR ''.'' # b) = a"
  by (simp add: takeWhile_append2 not_isDigit_point)

lemma dropWhile_digits_point:
  "\<forall>c\<in>set a. isDigit c \<Longrightarrow> dropWhile isDigit (a @ CHR ''.'' # b) = CHR ''.'' # b"
  by (simp add: dropWhile_append2 not_isDigit_point)

lemma takeWhile_digits_all: "\<forall>c\<in>set b. isDigit c \<Longrightarrow> takeWhile isDigit b = b"
  by (simp add: takeWhile_eq_all_conv)

lemma dropWhile_digits_all: "\<forall>c\<in>set b. isDigit c \<Longrightarrow> dropWhile isDigit b = []"
  by simp

lemma exponentOf_Nil: "exponentOf [] = 0"
  by (simp add: exponentOf_def)

lemma scale10_zero: "scale10 m 0 = m"
  by (simp add: scale10_def)

lemma signed_prefix:
  assumes "isDigit c"
  shows "takeSign (dropWhile isWhiteSpace ((if neg then ''-'' else '''') @ c # t)) = (neg, c # t)"
proof (cases neg)
  case True
  have "\<not> isWhiteSpace CHR ''-''" by (simp add: isWhiteSpace_def)
  with True show ?thesis by simp
next
  case False
  with assms show ?thesis by (simp add: isDigit_not_space isDigit_cases)
qed

lemma not_Infinity: "isDigit c \<Longrightarrow> take 8 (c # t) \<noteq> ''Infinity''"
  using isDigit_cases [of c] by (cases "take 7 t") auto

lemma parseFloat_point:
  assumes a: "a \<noteq> []" "\<forall>c\<in>set a. isDigit c" and b: "\<forall>c\<in>set b. isDigit c"
  shows "parseFloat ((if neg then ''-'' else '''') @ a @ ''.'' @ b) =
         Fin (if neg then - (rat_of_nat (digitsVal (a @ b)) / 10 ^ length b)
              else rat_of_nat (digitsVal (a @ b)) / 10 ^ length b)"
proof -
  from a obtain c a' where ac: "a = c # a'" by (cases a) auto
  with a have c: "isDigit c" by simp
  let ?t = "a' @ CHR ''.'' # b"
  have s: "takeSign (dropWhile isWhiteSpace ((if neg then ''-'' else '''') @ c # ?t)) = (neg, c # ?t)"
    by (rule signed_prefix [OF c])
  have i: "take 8 (c # ?t) \<noteq> ''Infinity''" by (rule not_Infinity [OF c])
  have t1: "takeWhile isDigit (c # ?t) = a"
    using takeWhile_digits_point [OF a(2), of b] by (simp add: ac)
  have t2: "dropWhile isDigit (c # ?t) = CHR ''.'' # b"
    using dropWhile_digits_point [OF a(2), of b] by (simp add: ac)
  have eq: "(if neg then ''-'' else '''') @ a @ ''.'' @ b = (if neg then ''-'' else '''') @ c # ?t"
    by (simp add: ac)
  show ?thesis
    unfolding eq parseFloat_def s
    using a(1) i
    by (simp add: t1 t2 takeWhile_digits_all [OF b] dropWhile_digits_all [OF b]
        exponentOf_Nil scale10_zero del: takeWhile.simps dropWhile.simps take_Cons_numeral)
qed

lemma parseFloat_integer:
  assumes a: "a \<noteq> []" "\<forall>c\<in>set a. isDigit c"
  shows "parseFloat ((if neg then ''-'' else '''') @ a) =
         Fin (if neg then - rat_of_nat (digitsVal a) else rat_of_nat (digitsVal a))"
proof -
  from a obtain c a' where ac: "a = c # a'" by (cases a) auto
  with a have c: "isDigit c" by simp
  have s: "takeSign (dropWhile isWhiteSpace ((if neg then ''-'' else '''') @ c # a')) = (neg, c # a')"
    by (rule signed_prefix [OF c])
  have i: "take 8 (c # a') \<noteq> ''Infinity''" by (rule not_Infinity [OF c])
  have t1: "takeWhile isDigit (c # a') = c # a'"
    using takeWhile_digits_all [OF a(2)] by (simp add: ac)
  have t2: "dropWhile isDigit (c # a') = []"
    using dropWhile_digits_all [OF a(2)] by (simp add: ac)
  show ?thesis
    unfolding ac parseFloat_def s
    using a(1) i
    by (simp add: t1 t2 exponentOf_Nil scale10_zero
        del: takeWhile.simps dropWhile.simps take_Cons_numeral)
qed

lemma fixed_digits_split:
  fixes n :: nat
  assumes f: "f \<noteq> 0"
  defines "m1 \<equiv> (if length (digitsOf n) \<le> f
                      then replicate (f + 1 - length (digitsOf n)) CHR ''0'' @ digitsOf n
                      else digitsOf n)"
  shows "take (length m1 - f) m1 \<noteq> []"
    and "\<forall>c\<in>set (take (length m1 - f) m1). isDigit c"
    and "\<forall>c\<in>set (drop (length m1 - f) m1). isDigit c"
    and "length (drop (length m1 - f) m1) = f"
    and "digitsVal (take (length m1 - f) m1 @ drop (length m1 - f) m1) = n"
proof -
  have zero: "isDigit CHR ''0''" by (simp add: isDigit_def)
  have len: "f < length m1"
    using digitsOf_nonempty [of n] by (auto simp: m1_def)
  have dig: "\<forall>c\<in>set m1. isDigit c"
    using digitsOf_digits [of n] zero by (auto simp: m1_def)
  show "take (length m1 - f) m1 \<noteq> []" using len by auto
  show "\<forall>c\<in>set (take (length m1 - f) m1). isDigit c"
    using dig by (meson in_set_takeD)
  show "\<forall>c\<in>set (drop (length m1 - f) m1). isDigit c"
    using dig by (meson in_set_dropD)
  show "length (drop (length m1 - f) m1) = f" using len by simp
  show "digitsVal (take (length m1 - f) m1 @ drop (length m1 - f) m1) = n"
    by (simp add: m1_def digitsVal_zeros digitsVal_digitsOf)
qed

lemma parseFloat_toFixed:
  "parseFloat (toFixed f (Fin r)) =
     Fin (if r < 0 then - (rat_of_nat (nat \<lfloor>\<bar>r\<bar> * 10 ^ f + 1 / 2\<rfloor>) / 10 ^ f)
          else rat_of_nat (nat \<lfloor>\<bar>r\<bar> * 10 ^ f + 1 / 2\<rfloor>) / 10 ^ f)"
proof (cases "f = 0")
  case True
  have "parseFloat ((if r < 0 then ''-'' else '''') @ digitsOf (nat \<lfloor>\<bar>r\<bar> * 10 ^ f + 1 / 2\<rfloor>)) =
        Fin (if r < 0 then - rat_of_nat (digitsVal (digitsOf (nat \<lfloor>\<bar>r\<bar> * 10 ^ f + 1 / 2\<rfloor>)))
             else rat_of_nat (digitsVal (digitsOf (nat \<lfloor>\<bar>r\<bar> * 10 ^ f + 1 / 2\<rfloor>))))"
    by (rule parseFloat_integer [OF digitsOf_nonempty digitsOf_digits])
  with True show ?thesis by (simp add: toFixed_def Let_def digitsVal_digitsOf)
next
  case False
  define n where "n = nat \<lfloor>\<bar>r\<bar> * 10 ^ f + 1 / 2\<rfloor>"
  define m1 where "m1 = (if length (digitsOf n) \<le> f
                      then replicate (f + 1 - length (digitsOf n)) CHR ''0'' @ digitsOf n
                      else digitsOf n)"
  note sp = fixed_digits_split [OF False, of n, folded m1_def]
  have "parseFloat ((if r < 0 then ''-'' else '''') @ take (length m1 - f) m1 @ ''.'' @ drop (length m1 - f) m1) =
        Fin (if r < 0 then - (rat_of_nat (digitsVal (take (length m1 - f) m1 @ drop (length m1 - f) m1)) / 10 ^ length (drop (length m1 - f) m1))
              else rat_of_nat (digitsVal (take (length m1 - f) m1 @ drop (length m1 - f) m1)) / 10 ^ length (drop (length m1 - f) m1))"
    by (rule parseFloat_point [OF sp(1) sp(2) sp(3)])
  then have "parseFloat ((if r < 0 then ''-'' else '''') @ take (length m1 - f) m1 @ ''.'' @ drop (length m1 - f) m1) =
        Fin (if r < 0 then - (rat_of_nat n / 10 ^ f) else rat_of_nat n / 10 ^ f)"
    unfolding sp(4) sp(5) .
  moreover have "toFixed f (Fin r) = (if r < 0 then ''-'' else '''') @ take (length m1 - f) m1 @ ''.'' @ drop (length m1 - f) m1"
    using False by (simp add: toFixed_def Let_def n_def m1_def)
  ultimately show ?thesis by (simp add: n_def)
qed

section \<open>The unit price\<close>

lemma floor_half: "\<lfloor>(1::rat) / 2\<rfloor> = 0"
  by (simp add: floor_eq_iff)

lemma signed_round:
  fixes r :: rat and f :: nat
  defines "z \<equiv> \<lfloor>\<bar>r\<bar> * 10 ^ f + 1 / 2\<rfloor>"
  shows "(if r < 0 then - (rat_of_nat (nat z) / 10 ^ f) else rat_of_nat (nat z) / 10 ^ f) =
         sgn r * of_int z / 10 ^ f"
proof -
  have "0 \<le> z" by (simp add: z_def)
  then have n: "rat_of_nat (nat z) = of_int z" by simp
  show ?thesis
  proof (cases "r = 0")
    case True
    then have "z = 0" by (simp add: z_def floor_half)
    with True show ?thesis by simp
  next
    case False
    then show ?thesis unfolding n by (simp add: sgn_if)
  qed
qed

lemma parseFloat_toFixed_round: "parseFloat (toFixed f x) = js_round f x"
proof (cases x)
  case (Fin r)
  show ?thesis
    unfolding Fin parseFloat_toFixed signed_round by (simp add: js_round_def spec_round_def)
next
  case NaN
  then show ?thesis
    by (simp add: toFixed_def js_round_def parseFloat_def isWhiteSpace_def isDigit_def)
next
  case NegInf
  then show ?thesis by (simp add: toFixed_def js_round_def parseFloat_def isWhiteSpace_def)
next
  case PosInf
  then show ?thesis by (simp add: toFixed_def js_round_def parseFloat_def isWhiteSpace_def)
qed







section \<open>The deal status of a record\<close>




section \<open>Minimum of two numbers\<close>

lemma min2_PosInf: "min2 x PosInf = x"
  by (cases x) (simp_all add: min2_def)

lemma Math_min_pair: "Math_min [a, b] = min2 a b"
  by (simp add: min2_PosInf)

lemma min2_left_commute: "min2 (min2 m x) y = min2 (min2 m y) x"
  by (cases m; cases x; cases y) (auto simp: min2_def)

section \<open>The historical low does not depend on the order of the records\<close>

lemma lowest_fold_perm:
  assumes "mset xs = mset ys"
  shows "foldl (\<lambda>m it. Math_min [m, item.unitPrice it]) a xs =
         foldl (\<lambda>m it. Math_min [m, item.unitPrice it]) a ys"
proof -
  let ?g = "\<lambda>it m. min2 m (item.unitPrice it)"
  have "fold ?g xs = fold ?g ys"
    by (rule fold_multiset_equiv [OF _ assms]) (simp add: fun_eq_iff min2_left_commute)
  then show ?thesis
    by (simp add: foldl_conv_fold min2_PosInf)
qed

text \<open>
  C8. Two record collections that are permutations of each other (the same records with
  the same multiplicities) have the same historical low, for every item name.
\<close>

theorem historicalLow_order_independent:
  assumes "mset xs = mset ys"
  shows "historicalLowPrice xs sel = historicalLowPrice ys sel"
proof -
  let ?P = "\<lambda>it. item.name it = sel"
  have m: "mset (filter ?P xs) = mset (filter ?P ys)"
    using assms by simp
  then have l: "length (filter ?P xs) = length (filter ?P ys)"
    by (rule mset_eq_length)
  show ?thesis
    unfolding historicalLowPrice_def Let_def l lowest_fold_perm [OF m] ..
qed

theorem historicalLow_order_independent_witness:
  "mset [beans2, beans1] = mset [beans1, beans2]
   \<and> historicalLowPrice [beans2, beans1] ''beans'' = Fin (24938 / 100000)
   \<and> historicalLowPrice [beans1, beans2] ''beans'' = Fin (24938 / 100000)"
proof -
  have h: "mset [beans2, beans1] = mset [beans1, beans2]" by (simp add: add.commute)
  have v: "historicalLowPrice [beans2, beans1] ''beans'' = Fin (24938 / 100000)"
    by (simp add: historicalLowPrice_def beans1_def beans2_def min2_def js_seq_def)
  from h v historicalLow_order_independent [OF h, of "''beans''"] show ?thesis by simp
qed

section \<open>Prices that are not numbers\<close>

lemma parseFloat_empty: "parseFloat [] = NaN"
  by (simp add: parseFloat_def)

lemma takeSign_subset: "set (snd (takeSign s)) \<subseteq> set s"
  by (cases s) auto

lemma set_dropWhile_subset: "set (dropWhile P s) \<subseteq> set s"
  by (induction s) auto

lemma takeWhile_none: "\<forall>c\<in>set s. \<not> P c \<Longrightarrow> takeWhile P s = []"
  by (cases s) auto

lemma parseFloat_no_digit:
  assumes nd: "\<forall>c\<in>set s. \<not> isDigit c"
    and ni: "take 8 (snd (takeSign (dropWhile isWhiteSpace s))) \<noteq> ''Infinity''"
  shows "parseFloat s = NaN"
proof -
  obtain neg u where t: "takeSign (dropWhile isWhiteSpace s) = (neg, u)"
    by (cases "takeSign (dropWhile isWhiteSpace s)")
  have "set u \<subseteq> set s"
    using takeSign_subset [of "dropWhile isWhiteSpace s"] set_dropWhile_subset [of isWhiteSpace s]
    by (auto simp: t)
  with nd have u: "\<forall>c\<in>set u. \<not> isDigit c" by auto
  from ni have i: "take 8 u \<noteq> ''Infinity''" by (simp add: t)
  show ?thesis
  proof (cases u)
    case Nil
    then show ?thesis unfolding parseFloat_def t by simp
  next
    case (Cons c cs)
    with u have c: "\<not> isDigit c" and cs: "takeWhile isDigit cs = []"
      by (auto intro: takeWhile_none)
    show ?thesis
      unfolding parseFloat_def t using i by (simp add: Cons c cs)
  qed
qed

text \<open>
  C10, as amended. When the price or the quantity is NaN and the other one is not
  \<open>\<le> 0\<close>, the guard of \<open>calculateUnitPrice\<close> is false and the result is NaN; when the
  other one is \<open>\<le> 0\<close> the guard is true and the result is \<open>0\<close>. The empty text and every
  text without a digit that does not spell Infinity parse to NaN, so the preview computed
  from the form is NaN in the same cases, the blank form among them.
\<close>

theorem calculateUnitPrice_NaN:
  "(\<not> js_le q (Fin 0) \<longrightarrow> calculateUnitPrice NaN q = NaN)
   \<and> (\<not> js_le p (Fin 0) \<longrightarrow> calculateUnitPrice p NaN = NaN)
   \<and> (js_le q (Fin 0) \<longrightarrow> calculateUnitPrice NaN q = Fin 0)
   \<and> (js_le p (Fin 0) \<longrightarrow> calculateUnitPrice p NaN = Fin 0)
   \<and> parseFloat [] = NaN
   \<and> ((\<forall>c\<in>set s. \<not> isDigit c)
        \<and> take 8 (snd (takeSign (dropWhile isWhiteSpace s))) \<noteq> ''Infinity'' \<longrightarrow>
        parseFloat s = NaN)
   \<and> (parseFloat (form.price f) = NaN \<and> \<not> js_le (parseFloat (form.quantity f)) (Fin 0) \<longrightarrow>
        currentUnitPrice f = NaN)
   \<and> (parseFloat (form.quantity f) = NaN \<and> \<not> js_le (parseFloat (form.price f)) (Fin 0) \<longrightarrow>
        currentUnitPrice f = NaN)
   \<and> currentUnitPrice emptyForm = NaN"
proof -
  have n: "parseFloat (toFixed 5 NaN) = NaN"
    by (simp add: parseFloat_toFixed_round js_round_def)
  have d: "js_div p NaN = NaN" for p by (cases p) simp_all
  have 1: "\<not> js_le q (Fin 0) \<longrightarrow> calculateUnitPrice NaN q = NaN" for q
    by (simp add: calculateUnitPrice_def n)
  have 2: "\<not> js_le p (Fin 0) \<longrightarrow> calculateUnitPrice p NaN = NaN" for p
    by (simp add: calculateUnitPrice_def n d)
  have 3: "js_le q (Fin 0) \<longrightarrow> calculateUnitPrice NaN q = Fin 0"
    and 4: "js_le p (Fin 0) \<longrightarrow> calculateUnitPrice p NaN = Fin 0"
    by (simp_all add: calculateUnitPrice_def)
  have 5: "(\<forall>c\<in>set s. \<not> isDigit c)
        \<and> take 8 (snd (takeSign (dropWhile isWhiteSpace s))) \<noteq> ''Infinity'' \<longrightarrow>
        parseFloat s = NaN"
    by (simp add: parseFloat_no_digit)
  have 6: "parseFloat (form.price f) = NaN \<and> \<not> js_le (parseFloat (form.quantity f)) (Fin 0) \<longrightarrow>
        currentUnitPrice f = NaN"
    using 1 [of "parseFloat (form.quantity f)"] by (simp add: currentUnitPrice_def)
  have 7: "parseFloat (form.quantity f) = NaN \<and> \<not> js_le (parseFloat (form.price f)) (Fin 0) \<longrightarrow>
        currentUnitPrice f = NaN"
    using 2 [of "parseFloat (form.price f)"] by (simp add: currentUnitPrice_def)
  have 8: "currentUnitPrice emptyForm = NaN"
    using 1 [of NaN] by (simp add: currentUnitPrice_def emptyForm_def parseFloat_empty)
  from 1 2 3 4 5 6 7 8 parseFloat_empty show ?thesis by blast
qed

theorem calculateUnitPrice_NaN_witness:
  "\<not> js_le (Fin 16) (Fin 0) \<and> calculateUnitPrice NaN (Fin 16) = NaN
   \<and> calculateUnitPrice (Fin 16) NaN = NaN
   \<and> js_le (Fin (- 1)) (Fin 0) \<and> calculateUnitPrice NaN (Fin (- 1)) = Fin 0
   \<and> calculateUnitPrice (Fin (- 1)) NaN = Fin 0
   \<and> parseFloat ''abc'' = NaN
   \<and> currentUnitPrice (emptyForm\<lparr>form.price := ''abc'', form.quantity := ''16''\<rparr>) = NaN
   \<and> currentUnitPrice (emptyForm\<lparr>form.price := ''4.99'', form.quantity := ''abc''\<rparr>) = NaN"
proof -
  have d: "\<forall>c\<in>set ''abc''. \<not> isDigit c" by (simp add: isDigit_def)
  have i: "take 8 (snd (takeSign (dropWhile isWhiteSpace ''abc''))) \<noteq> ''Infinity''"
    by (simp add: isWhiteSpace_def)
  have q: "parseFloat ''16'' = Fin 16"
    by (simp add: parseFloat_def isDigit_def isWhiteSpace_def digitsVal_def digitVal_def
        scale10_def exponentOf_def)
  have p: "parseFloat ''4.99'' = Fin (499 / 100)"
    by (simp add: parseFloat_def isDigit_def isWhiteSpace_def digitsVal_def digitVal_def
        scale10_def exponentOf_def)
  have a: "parseFloat ''abc'' = NaN"
    using calculateUnitPrice_NaN [where s = "''abc''"] d i by blast
  have 1: "calculateUnitPrice NaN (Fin 16) = NaN" "calculateUnitPrice (Fin 16) NaN = NaN"
    using calculateUnitPrice_NaN [of "Fin 16" "Fin 16"] by simp_all
  have 2: "calculateUnitPrice NaN (Fin (- 1)) = Fin 0" "calculateUnitPrice (Fin (- 1)) NaN = Fin 0"
    using calculateUnitPrice_NaN [of "Fin (- 1)" "Fin (- 1)"] by simp_all
  have 3: "currentUnitPrice (emptyForm\<lparr>form.price := ''abc'', form.quantity := ''16''\<rparr>) = NaN"
    using calculateUnitPrice_NaN
      [where f = "emptyForm\<lparr>form.price := ''abc'', form.quantity := ''16''\<rparr>"]
    by (simp add: a q)
  have 4: "currentUnitPrice (emptyForm\<lparr>form.price := ''4.99'', form.quantity := ''abc''\<rparr>) = NaN"
    using calculateUnitPrice_NaN
      [where f = "emptyForm\<lparr>form.price := ''4.99'', form.quantity := ''abc''\<rparr>"]
    by (simp add: a p)
  from a 1 2 3 4 show ?thesis by simp
qed

text \<open>
  The claim as written fails for a NaN price with the quantity \<open>0\<close>: the guard is true
  and the result is \<open>0\<close>, which is what the preview shows for a blank price and the
  quantity \<open>0\<close>.
\<close>

theorem calculateUnitPrice_NaN_counterexample:
  "js_le (Fin 0) (Fin 0) \<and> calculateUnitPrice NaN (Fin 0) = Fin 0
   \<and> calculateUnitPrice NaN (Fin 0) \<noteq> NaN
   \<and> parseFloat (form.price (emptyForm\<lparr>form.quantity := ''0''\<rparr>)) = NaN
   \<and> currentUnitPrice (emptyForm\<lparr>form.quantity := ''0''\<rparr>) = Fin 0"
proof -
  have q: "parseFloat ''0'' = Fin 0"
    by (simp add: parseFloat_def isDigit_def isWhiteSpace_def digitsVal_def digitVal_def
        scale10_def exponentOf_def)
  have p: "parseFloat [] = NaN" by (simp add: parseFloat_def)
  show ?thesis
    by (simp add: calculateUnitPrice_def currentUnitPrice_def emptyForm_def p q)
qed

section \<open>The historical low is the lowest unit price\<close>

lemma js_le_refl: "x \<noteq> NaN \<Longrightarrow> js_le x x"
  by (cases x) simp_all

lemma js_le_trans: "js_le x y \<Longrightarrow> js_le y z \<Longrightarrow> js_le x z"
  by (cases x; cases y; cases z) simp_all

lemma js_le_total: "x \<noteq> NaN \<Longrightarrow> y \<noteq> NaN \<Longrightarrow> js_le x y \<or> js_le y x"
  by (cases x; cases y) auto

lemma js_le_PosInf: "js_le PosInf x \<Longrightarrow> x = PosInf"
  by (cases x) simp_all

lemma min2_NaN: "min2 NaN x = NaN" "min2 x NaN = NaN"
  by (simp_all add: min2_def)

lemma min2_cases:
  assumes "a \<noteq> NaN" "b \<noteq> NaN"
  shows "min2 a b \<noteq> NaN" "min2 a b = a \<or> min2 a b = b" "js_le (min2 a b) a" "js_le (min2 a b) b"
  using assms js_le_total [of a b] js_le_refl [of a] js_le_refl [of b]
  by (auto simp: min2_def)

lemma lowest_min2:
  "foldl (\<lambda>m it. Math_min [m, item.unitPrice it]) a xs =
   foldl (\<lambda>m it. min2 m (item.unitPrice it)) a xs"
  by (simp add: min2_PosInf)

lemma lowest_NaN_start:
  "foldl (\<lambda>m it. min2 m (item.unitPrice it)) NaN xs = NaN"
  by (induction xs) (simp_all add: min2_NaN)

lemma lowest_NaN:
  "\<exists>it\<in>set xs. item.unitPrice it = NaN \<Longrightarrow>
   foldl (\<lambda>m it. min2 m (item.unitPrice it)) a xs = NaN"
proof (induction xs arbitrary: a)
  case Nil
  then show ?case by simp
next
  case (Cons x xs)
  show ?case
  proof (cases "item.unitPrice x = NaN")
    case True
    then show ?thesis by (simp add: min2_NaN lowest_NaN_start)
  next
    case False
    with Cons.prems have "\<exists>it\<in>set xs. item.unitPrice it = NaN" by simp
    then show ?thesis by (simp add: Cons.IH)
  qed
qed

lemma lowest_min:
  "a \<noteq> NaN \<Longrightarrow> \<forall>it\<in>set xs. item.unitPrice it \<noteq> NaN \<Longrightarrow>
   foldl (\<lambda>m it. min2 m (item.unitPrice it)) a xs \<noteq> NaN
   \<and> (foldl (\<lambda>m it. min2 m (item.unitPrice it)) a xs = a
        \<or> foldl (\<lambda>m it. min2 m (item.unitPrice it)) a xs \<in> item.unitPrice ` set xs)
   \<and> js_le (foldl (\<lambda>m it. min2 m (item.unitPrice it)) a xs) a
   \<and> (\<forall>it\<in>set xs. js_le (foldl (\<lambda>m it. min2 m (item.unitPrice it)) a xs)
                         (item.unitPrice it))"
proof (induction xs arbitrary: a)
  case Nil
  then show ?case by (simp add: js_le_refl)
next
  case (Cons x xs)
  let ?b = "min2 a (item.unitPrice x)"
  let ?r = "foldl (\<lambda>m it. min2 m (item.unitPrice it)) ?b xs"
  from Cons.prems have x: "item.unitPrice x \<noteq> NaN" by simp
  note m = min2_cases [OF Cons.prems(1) x]
  from Cons.prems have "\<forall>it\<in>set xs. item.unitPrice it \<noteq> NaN" by simp
  from Cons.IH [OF m(1) this]
  have ih: "?r \<noteq> NaN" "?r = ?b \<or> ?r \<in> item.unitPrice ` set xs" "js_le ?r ?b"
    "\<forall>it\<in>set xs. js_le ?r (item.unitPrice it)"
    by simp_all
  have "?r = a \<or> ?r \<in> item.unitPrice ` set (x # xs)"
    using ih(2) m(2) by auto
  moreover have "js_le ?r a" by (rule js_le_trans [OF ih(3) m(3)])
  moreover have "js_le ?r (item.unitPrice x)" by (rule js_le_trans [OF ih(3) m(4)])
  ultimately show ?case using ih(1) ih(4) by simp
qed

text \<open>
  C4, as amended. The historical low is \<open>0\<close> for the empty name and for a name no record
  has. For a name with records it is NaN as soon as one matching unit price is NaN, \<open>0\<close>
  when every matching unit price is Infinity, and otherwise the lowest matching unit
  price: the unit price of a matching record that is at most every matching unit price.
\<close>

theorem historicalLow_minimum:
  fixes its :: "item list" and sel :: string
  defines "matching \<equiv> filter (\<lambda>it. item.name it = sel) its"
  shows
  "(sel = [] \<or> matching = [] \<longrightarrow> historicalLowPrice its sel = Fin 0)
   \<and> (sel \<noteq> [] \<and> (\<exists>it\<in>set matching. item.unitPrice it = NaN) \<longrightarrow>
        historicalLowPrice its sel = NaN)
   \<and> (sel \<noteq> [] \<and> matching \<noteq> [] \<and> (\<forall>it\<in>set matching. item.unitPrice it = PosInf) \<longrightarrow>
        historicalLowPrice its sel = Fin 0)
   \<and> (sel \<noteq> [] \<and> (\<forall>it\<in>set matching. item.unitPrice it \<noteq> NaN)
        \<and> (\<exists>it\<in>set matching. item.unitPrice it \<noteq> PosInf) \<longrightarrow>
        historicalLowPrice its sel \<in> item.unitPrice ` set matching
        \<and> (\<forall>it\<in>set matching. js_le (historicalLowPrice its sel) (item.unitPrice it)))"
proof (intro conjI impI)
  assume "sel = [] \<or> matching = []"
  then show "historicalLowPrice its sel = Fin 0"
    by (auto simp: historicalLowPrice_def matching_def)
next
  assume h: "sel \<noteq> [] \<and> (\<exists>it\<in>set matching. item.unitPrice it = NaN)"
  then have ne: "matching \<noteq> []" by auto
  from h have "foldl (\<lambda>m it. min2 m (item.unitPrice it)) PosInf matching = NaN"
    by (simp add: lowest_NaN)
  with h ne show "historicalLowPrice its sel = NaN"
    by (simp add: historicalLowPrice_def matching_def [symmetric] js_seq_def min2_PosInf)
next
  assume h: "sel \<noteq> [] \<and> matching \<noteq> [] \<and> (\<forall>it\<in>set matching. item.unitPrice it = PosInf)"
  then have nn: "\<forall>it\<in>set matching. item.unitPrice it \<noteq> NaN" by simp
  let ?r = "foldl (\<lambda>m it. min2 m (item.unitPrice it)) PosInf matching"
  from lowest_min [of PosInf matching, OF _ nn]
  have "?r = PosInf \<or> ?r \<in> item.unitPrice ` set matching" by simp
  with h have "?r = PosInf" by auto
  with h show "historicalLowPrice its sel = Fin 0"
    by (simp add: historicalLowPrice_def matching_def [symmetric] js_seq_def min2_PosInf)
next
  assume h: "sel \<noteq> [] \<and> (\<forall>it\<in>set matching. item.unitPrice it \<noteq> NaN)
             \<and> (\<exists>it\<in>set matching. item.unitPrice it \<noteq> PosInf)"
  then have nn: "\<forall>it\<in>set matching. item.unitPrice it \<noteq> NaN" and ne: "matching \<noteq> []"
    by auto
  let ?r = "foldl (\<lambda>m it. min2 m (item.unitPrice it)) PosInf matching"
  from lowest_min [of PosInf matching, OF _ nn]
  have r: "?r \<noteq> NaN" "?r = PosInf \<or> ?r \<in> item.unitPrice ` set matching"
    "\<forall>it\<in>set matching. js_le ?r (item.unitPrice it)"
    by simp_all
  from h obtain it where it: "it \<in> set matching" "item.unitPrice it \<noteq> PosInf" by auto
  have np: "?r \<noteq> PosInf"
  proof
    assume "?r = PosInf"
    with r(3) it(1) have "js_le PosInf (item.unitPrice it)" by auto
    with it(2) show False by (auto dest: js_le_PosInf)
  qed
  have e: "historicalLowPrice its sel = ?r"
    using h ne np
    by (simp add: historicalLowPrice_def matching_def [symmetric] js_seq_def min2_PosInf)
  show "historicalLowPrice its sel \<in> item.unitPrice ` set matching"
    unfolding e using r(2) np by simp
  show "\<forall>it\<in>set matching. js_le (historicalLowPrice its sel) (item.unitPrice it)"
    unfolding e using r(3) by simp
qed

lemma example_names:
  "item.name beans1 = ''beans''" "item.name beans2 = ''beans''"
  "item.name rice1 = ''rice''" "item.name milk1 = ''milk''"
  "item.name salt1 = ''salt''" "item.name tea1 = ''tea''"
  by (simp_all add: beans1_def beans2_def rice1_def milk1_def salt1_def tea1_def)

lemma example_unitPrices:
  "item.unitPrice beans1 = Fin (31188 / 100000)"
  "item.unitPrice beans2 = Fin (24938 / 100000)"
  "item.unitPrice rice1 = Fin (3 / 10)" "item.unitPrice milk1 = Fin (1 / 5)"
  "item.unitPrice salt1 = Fin 0" "item.unitPrice tea1 = NaN"
  by (simp_all add: beans1_def beans2_def rice1_def milk1_def salt1_def tea1_def)

theorem historicalLow_minimum_witness:
  "historicalLowPrice [beans2, beans1] '''' = Fin 0
   \<and> historicalLowPrice [beans2, beans1] ''rice'' = Fin 0
   \<and> historicalLowPrice [beans2, tea1, beans1] ''tea'' = NaN
   \<and> historicalLowPrice [beans2, rice1, beans1] ''beans'' = item.unitPrice beans2
   \<and> js_le (historicalLowPrice [beans2, rice1, beans1] ''beans'') (item.unitPrice beans1)"
proof -
  have 1: "historicalLowPrice [beans2, beans1] '''' = Fin 0"
    using historicalLow_minimum [where sel = "''''" and its = "[beans2, beans1]"] by simp
  have 2: "historicalLowPrice [beans2, beans1] ''rice'' = Fin 0"
    using historicalLow_minimum [where sel = "''rice''" and its = "[beans2, beans1]"]
    by (simp add: example_names)
  have 3: "historicalLowPrice [beans2, tea1, beans1] ''tea'' = NaN"
    using historicalLow_minimum [where sel = "''tea''" and its = "[beans2, tea1, beans1]"]
    by (simp add: example_names example_unitPrices)
  have 4: "historicalLowPrice [beans2, rice1, beans1] ''beans'' = item.unitPrice beans2
           \<and> js_le (historicalLowPrice [beans2, rice1, beans1] ''beans'') (item.unitPrice beans1)"
    using historicalLow_minimum [where sel = "''beans''" and its = "[beans2, rice1, beans1]"]
    by (auto simp: example_names example_unitPrices)
  from 1 2 3 4 show ?thesis by (simp add: example_unitPrices)
qed

text \<open>
  The claim as written fails for a matching record whose unit price is NaN, which is what
  a submission with a blank price stores: the historical low is NaN, and NaN is not at
  most anything.
\<close>

theorem historicalLow_NaN_counterexample:
  "''tea'' \<noteq> [] \<and> map item.name [tea1, beans1] = [''tea'', ''beans'']
   \<and> historicalLowPrice [tea1, beans1] ''tea'' = NaN
   \<and> \<not> js_le (historicalLowPrice [tea1, beans1] ''tea'') (item.unitPrice tea1)"
  by (simp add: historicalLowPrice_def example_names example_unitPrices min2_def js_seq_def)

section \<open>The deal-status column follows the selected item\<close>








section \<open>Submissions\<close>

lemma handleSubmit_rejected:
  assumes "isAuthenticated st"
    and "form.name (form st) = [] \<or> js_le (parseFloat (form.price (form st))) (Fin 0)
         \<or> js_le (parseFloat (form.quantity (form st))) (Fin 0)"
  shows "handleSubmit i t ok st = (ValidationError, st)"
  using assms by (simp add: handleSubmit_def Let_def)

lemma handleSubmit_persisted:
  assumes "persisted (fst (handleSubmit i t ok st)) = Some it"
  shows "isAuthenticated st"
    and "form.name (form st) \<noteq> []"
    and "\<not> js_le (parseFloat (form.price (form st))) (Fin 0)"
    and "\<not> js_le (parseFloat (form.quantity (form st))) (Fin 0)"
    and "item.name it = trim (form.name (form st))"
    and "item.store it = (if trim (form.store (form st)) \<noteq> [] then trim (form.store (form st))
                          else ''Unknown'')"
    and "item.price it = parseFloat (form.price (form st))"
    and "item.quantity it = parseFloat (form.quantity (form st))"
    and "item.unitPrice it = calculateUnitPrice (item.price it) (item.quantity it)"
    and "item.rockBottomPrice it =
         deriveRockBottom
           (let v = parseFloat (form.rockBottomPrice (form st)) in if truthy v then v else Fin 0)
           (historicalLowPrice (items st) (selectedItem st)) (item.unitPrice it)"
  using assms
  by (auto simp: handleSubmit_def Let_def split: if_splits)

lemma handleSubmit_accepted:
  assumes "isAuthenticated st" "form.name (form st) \<noteq> []"
    and "\<not> js_le (parseFloat (form.price (form st))) (Fin 0)"
    and "\<not> js_le (parseFloat (form.quantity (form st))) (Fin 0)"
  shows "\<exists>it. persisted (fst (handleSubmit i t ok st)) = Some it"
  using assms by (simp add: handleSubmit_def Let_def)

lemma js_gt_min2_left: "\<not> js_gt (min2 a b) a"
  by (cases a; cases b) (auto simp: min2_def js_gt_def)

lemma js_gt_min2_right: "\<not> js_gt (min2 a b) b"
  by (cases a; cases b) (auto simp: min2_def js_gt_def)

lemma Math_min_triple: "Math_min [a, b, c] = min2 a (min2 b c)"
  by (simp add: min2_PosInf)

lemma min2_triple_cases:
  assumes "a \<noteq> NaN" "b \<noteq> NaN" "c \<noteq> NaN"
  shows "min2 a (min2 b c) \<in> {a, b, c}"
    and "js_le (min2 a (min2 b c)) a"
    and "js_le (min2 a (min2 b c)) b"
    and "js_le (min2 a (min2 b c)) c"
proof -
  note bc = min2_cases [OF assms(2) assms(3)]
  note abc = min2_cases [OF assms(1) bc(1)]
  show "min2 a (min2 b c) \<in> {a, b, c}" using abc(2) bc(2) by auto
  show "js_le (min2 a (min2 b c)) a" by (rule abc(3))
  show "js_le (min2 a (min2 b c)) b" by (rule js_le_trans [OF abc(4) bc(3)])
  show "js_le (min2 a (min2 b c)) c" by (rule js_le_trans [OF abc(4) bc(4)])
qed

lemma js_gt_not_NaN: "js_gt a b \<Longrightarrow> a \<noteq> NaN"
  by (cases a; cases b) (auto simp: js_gt_def)

text \<open>
  C2. For every stated target, historical low and computed unit price: with a positive
  historical low the target to persist is \<open>Math.min\<close> of the three; otherwise it is the
  unit price when the stated target is \<open>0\<close>, and the stated target unchanged when it is
  not. With a positive historical low the result is therefore never above the historical
  low nor above the unit price, and when no argument is NaN it is one of the three and at
  most each of them. The record \<open>handleSubmit\<close> hands to the store carries this value,
  computed from the parsed target field (\<open>0\<close> when blank), the historical low of the
  selected item and the unit price of the submission.
\<close>

theorem rockBottom_for_submission:
  "(js_gt hl (Fin 0) \<longrightarrow> deriveRockBottom tgt hl c = Math_min [tgt, hl, c])
   \<and> (\<not> js_gt hl (Fin 0) \<and> js_seq tgt (Fin 0) \<longrightarrow> deriveRockBottom tgt hl c = c)
   \<and> (\<not> js_gt hl (Fin 0) \<and> \<not> js_seq tgt (Fin 0) \<longrightarrow> deriveRockBottom tgt hl c = tgt)
   \<and> (js_gt hl (Fin 0) \<longrightarrow>
        \<not> js_gt (deriveRockBottom tgt hl c) hl \<and> \<not> js_gt (deriveRockBottom tgt hl c) c)
   \<and> (js_gt hl (Fin 0) \<and> tgt \<noteq> NaN \<and> c \<noteq> NaN \<longrightarrow>
        deriveRockBottom tgt hl c \<in> {tgt, hl, c}
        \<and> js_le (deriveRockBottom tgt hl c) tgt
        \<and> js_le (deriveRockBottom tgt hl c) hl
        \<and> js_le (deriveRockBottom tgt hl c) c)
   \<and> (persisted (fst (handleSubmit i t ok st)) = Some it \<longrightarrow>
        item.rockBottomPrice it =
          deriveRockBottom
            (let v = parseFloat (form.rockBottomPrice (form st)) in if truthy v then v else Fin 0)
            (historicalLowPrice (items st) (selectedItem st))
            (calculateUnitPrice (parseFloat (form.price (form st)))
               (parseFloat (form.quantity (form st)))))"
proof (intro conjI impI)
  assume "js_gt hl (Fin 0)"
  then show "deriveRockBottom tgt hl c = Math_min [tgt, hl, c]"
    by (simp add: deriveRockBottom_def)
next
  assume "\<not> js_gt hl (Fin 0) \<and> js_seq tgt (Fin 0)"
  then show "deriveRockBottom tgt hl c = c" by (simp add: deriveRockBottom_def)
next
  assume "\<not> js_gt hl (Fin 0) \<and> \<not> js_seq tgt (Fin 0)"
  then show "deriveRockBottom tgt hl c = tgt" by (simp add: deriveRockBottom_def)
next
  assume h: "js_gt hl (Fin 0)"
  then have e: "deriveRockBottom tgt hl c = min2 tgt (min2 hl c)"
    by (simp add: deriveRockBottom_def min2_PosInf)
  have "min2 tgt (min2 hl c) = min2 (min2 tgt c) hl"
    using min2_left_commute [of tgt hl c] min2_left_commute [of tgt c hl]
    by (cases tgt; cases hl; cases c) (auto simp: min2_def)
  then show "\<not> js_gt (deriveRockBottom tgt hl c) hl"
    unfolding e by (simp add: js_gt_min2_right)
  have "min2 tgt (min2 hl c) = min2 (min2 tgt hl) c"
    by (cases tgt; cases hl; cases c) (auto simp: min2_def)
  then show "\<not> js_gt (deriveRockBottom tgt hl c) c"
    unfolding e by (simp add: js_gt_min2_right)
next
  assume h: "js_gt hl (Fin 0) \<and> tgt \<noteq> NaN \<and> c \<noteq> NaN"
  then have e: "deriveRockBottom tgt hl c = min2 tgt (min2 hl c)"
    by (simp add: deriveRockBottom_def min2_PosInf)
  from h have n: "tgt \<noteq> NaN" "hl \<noteq> NaN" "c \<noteq> NaN"
    by (auto dest: js_gt_not_NaN)
  note m = min2_triple_cases [OF n]
  show "deriveRockBottom tgt hl c \<in> {tgt, hl, c}" unfolding e by (rule m(1))
  show "js_le (deriveRockBottom tgt hl c) tgt" unfolding e by (rule m(2))
  show "js_le (deriveRockBottom tgt hl c) hl" unfolding e by (rule m(3))
  show "js_le (deriveRockBottom tgt hl c) c" unfolding e by (rule m(4))
next
  assume p: "persisted (fst (handleSubmit i t ok st)) = Some it"
  note f = handleSubmit_persisted [OF p]
  show "item.rockBottomPrice it =
          deriveRockBottom
            (let v = parseFloat (form.rockBottomPrice (form st)) in if truthy v then v else Fin 0)
            (historicalLowPrice (items st) (selectedItem st))
            (calculateUnitPrice (parseFloat (form.price (form st)))
               (parseFloat (form.quantity (form st))))"
    using f(10) unfolding f(9) f(7) f(8) .
qed

section \<open>Submissions, evaluated\<close>

lemmas parse_defs = parseFloat_def isDigit_def isWhiteSpace_def digitsVal_def digitVal_def
  scale10_def exponentOf_def

lemma parse_examples:
  "parseFloat ''3.99'' = Fin (399 / 100)"
  "parseFloat ''16'' = Fin 16"
  "parseFloat ''0.3119'' = Fin (3119 / 10000)"
  "parseFloat ''1'' = Fin 1"
  "parseFloat ''0'' = Fin 0"
  "parseFloat '''' = NaN"
  by (simp_all add: parse_defs)

lemma trim_examples:
  "trim '' Corner Market '' = ''Corner Market''"
  "trim ''beans'' = ''beans''" "trim ''tea'' = ''tea''" "trim '' '' = []" "trim [] = []"
  by (simp_all add: trim_def isWhiteSpace_def)

lemma spec_round_B: "spec_round 5 (399 / 1600) = 12469 / 50000"
proof -
  have "\<lfloor>(399::rat) / 1600 * 10 ^ 5 + 1 / 2\<rfloor> = 24938" by (simp add: floor_eq_iff)
  then show ?thesis by (simp add: spec_round_def)
qed

lemma spec_round_one: "spec_round 5 1 = 1"
proof -
  have "\<lfloor>(1::rat) * 10 ^ 5 + 1 / 2\<rfloor> = 100000" by (simp add: floor_eq_iff)
  then show ?thesis by (simp add: spec_round_def)
qed

lemma unitPrice_examples:
  "calculateUnitPrice (Fin (399 / 100)) (Fin 16) = Fin (12469 / 50000)"
  "calculateUnitPrice NaN (Fin 16) = NaN"
  "calculateUnitPrice (Fin 1) (Fin 1) = Fin 1"
  by (simp_all add: calculateUnitPrice_def parseFloat_toFixed_round js_round_def spec_round_B
      spec_round_one)

lemma low_examples:
  "historicalLowPrice [beans1] ''beans'' = Fin (7797 / 25000)"
  "historicalLowPrice [beans1] ''tea'' = Fin 0"
  "historicalLowPrice [beans1] '' '' = Fin 0"
  by (simp_all add: historicalLowPrice_def example_names example_unitPrices min2_def js_seq_def)

lemma beansOrder_submitted:
  "fst (handleSubmit ''2'' ''2024-01-02T00:00:00.000Z'' ok beansOrder) =
   LocalWrite [beans2\<lparr>item.store := ''Corner Market''\<rparr>, beans1]"
  by (simp add: handleSubmit_def Let_def beansOrder_def parse_examples trim_examples
      unitPrice_examples low_examples deriveRockBottom_def truthy_def js_gt_def min2_def
      beans2_def)

theorem rockBottom_for_submission_witness:
  "js_gt (Fin (7797 / 25000)) (Fin 0)
   \<and> deriveRockBottom (Fin (3119 / 10000)) (Fin (7797 / 25000)) (Fin (12469 / 50000))
       = Fin (12469 / 50000)
   \<and> \<not> js_gt (Fin 0) (Fin 0) \<and> js_seq (Fin 0) (Fin 0)
   \<and> deriveRockBottom (Fin 0) (Fin 0) (Fin (7797 / 25000)) = Fin (7797 / 25000)
   \<and> \<not> js_seq (Fin (1 / 4)) (Fin 0)
   \<and> deriveRockBottom (Fin (1 / 4)) (Fin 0) (Fin (7797 / 25000)) = Fin (1 / 4)
   \<and> persisted (fst (handleSubmit ''2'' ''2024-01-02T00:00:00.000Z'' True beansOrder))
       = Some (beans2\<lparr>item.store := ''Corner Market''\<rparr>)
   \<and> item.rockBottomPrice (beans2\<lparr>item.store := ''Corner Market''\<rparr>) = Fin (12469 / 50000)"
proof -
  have p: "persisted (fst (handleSubmit ''2'' ''2024-01-02T00:00:00.000Z'' True beansOrder))
           = Some (beans2\<lparr>item.store := ''Corner Market''\<rparr>)"
    by (simp add: beansOrder_submitted)
  have g: "js_gt (Fin (7797 / 25000)) (Fin 0)" by (simp add: js_gt_def)
  have 1: "deriveRockBottom (Fin (3119 / 10000)) (Fin (7797 / 25000)) (Fin (12469 / 50000))
           = Fin (12469 / 50000)"
    using rockBottom_for_submission
      [where hl = "Fin (7797 / 25000)" and tgt = "Fin (3119 / 10000)"
         and c = "Fin (12469 / 50000)"] g
    by (simp add: min2_def)
  have 2: "deriveRockBottom (Fin 0) (Fin 0) (Fin (7797 / 25000)) = Fin (7797 / 25000)"
    using rockBottom_for_submission
      [where hl = "Fin 0" and tgt = "Fin 0" and c = "Fin (7797 / 25000)"]
    by (simp add: js_gt_def js_seq_def)
  have 3: "deriveRockBottom (Fin (1 / 4)) (Fin 0) (Fin (7797 / 25000)) = Fin (1 / 4)"
    using rockBottom_for_submission
      [where hl = "Fin 0" and tgt = "Fin (1 / 4)" and c = "Fin (7797 / 25000)"]
    by (simp add: js_gt_def js_seq_def)
  have 4: "item.rockBottomPrice (beans2\<lparr>item.store := ''Corner Market''\<rparr>) = Fin (12469 / 50000)"
    using rockBottom_for_submission
      [where i = "''2''" and t = "''2024-01-02T00:00:00.000Z''" and ok = True
         and st = beansOrder and it = "beans2\<lparr>item.store := ''Corner Market''\<rparr>"
         and hl = "Fin (7797 / 25000)" and tgt = "Fin (3119 / 10000)"
         and c = "Fin (12469 / 50000)"] p 1
    by (simp add: beansOrder_def parse_examples unitPrice_examples low_examples truthy_def)
  from g p 1 2 3 4 show ?thesis by (simp add: js_gt_def js_seq_def)
qed

lemma zeroQuantity_rejected:
  "handleSubmit i t ok zeroQuantityOrder = (ValidationError, zeroQuantityOrder)"
  by (rule handleSubmit_rejected)
    (simp_all add: zeroQuantityOrder_def beansOrder_def parse_examples)


text \<open>
  C7. Store and unit price of a persisted record are as the claim says
  (\<open>handleSubmit_persisted\<close>), and its name is the trimmed name of the form. The name
  is checked before it is trimmed, though: a name that is a single space passes the check
  and the record is stored with the empty name.
\<close>

theorem blank_name_is_stored:
  "form.name (form spaceOrder) = '' ''
   \<and> map_option item.name
        (persisted (fst (handleSubmit ''7'' ''2024-01-07T00:00:00.000Z'' True spaceOrder)))
       = Some []"
  by (simp add: handleSubmit_def Let_def spaceOrder_def parse_examples trim_examples
      unitPrice_examples low_examples deriveRockBottom_def truthy_def js_gt_def js_seq_def)

section \<open>Selecting an item\<close>







end
